theory Spec2Isabelle
  imports Complex_Main "HOL-Library.Sublist" "HOL-Library.Char_ord" "HOL-Library.List_Lexorder"
begin

section \<open>Python values used by the evaluation harness\<close>

text \<open>
  The program verified here is \<^verbatim>\<open>01_qiskit-human-eval/evaluate_qiskit_humaneval.py\<close>.
  A Python \<^verbatim>\<open>str\<close> is modelled as a \<^typ>\<open>string\<close>: a list of characters, each
  character standing for the code point of the same number (code points below 256).
  Python exceptions are values of the type \<open>error\<close>; a function that can raise returns
  \<open>error + 'a\<close>, with \<open>Inl\<close> for the exception.
\<close>

datatype error =
    ValueError
  | KeyError string
  | IndexError
  | TypeError
  | RuntimeError string
  | DataUnavailableError
  | NotModelled

subsection \<open>\<^verbatim>\<open>str.isspace\<close>, \<^verbatim>\<open>str.strip\<close>, \<^verbatim>\<open>in\<close>, slicing\<close>

text \<open>
  The white space of \<^verbatim>\<open>str.strip()\<close> and of the regular expression class \<^verbatim>\<open>\s\<close>
  (for a \<^verbatim>\<open>str\<close> pattern both are the Unicode white space): below 256 these are the code
  points 9 to 13, 28 to 32, 133 and 160.
\<close>

definition isspace :: "char \<Rightarrow> bool" where
  "isspace c =
     (let n = (of_char c :: nat)
      in (9 \<le> n \<and> n \<le> 13) \<or> (28 \<le> n \<and> n \<le> 32) \<or> n = 133 \<or> n = 160)"

definition lstrip :: "string \<Rightarrow> string" where
  "lstrip s = dropWhile isspace s"

definition rstrip :: "string \<Rightarrow> string" where
  "rstrip s = rev (dropWhile isspace (rev s))"

definition strip :: "string \<Rightarrow> string" where
  "strip s = rstrip (lstrip s)"

text \<open>\<^verbatim>\<open>needle in hay\<close> on strings: \<open>needle\<close> occurs in \<open>hay\<close> as a contiguous run.\<close>

definition contains :: "string \<Rightarrow> string \<Rightarrow> bool" where
  "contains hay needle = sublist needle hay"

text \<open>\<^verbatim>\<open>str(n)\<close> and \<^verbatim>\<open>f"{n}"\<close> for an \<^verbatim>\<open>int\<close>: the decimal numeral, with a minus sign
  when negative.\<close>

fun str_nat :: "nat \<Rightarrow> string" where
  "str_nat n =
     (if n < 10 then [char_of (48 + n)]
      else str_nat (n div 10) @ [char_of (48 + n mod 10)])"

definition str_int :: "int \<Rightarrow> string" where
  "str_int i = (if i < 0 then CHR ''-'' # str_nat (nat (- i)) else str_nat (nat i))"

subsection \<open>\<^verbatim>\<open>str.format\<close> with keyword arguments\<close>

text \<open>
  \<^verbatim>\<open>template.format(**kw)\<close> scans the template from left to right: \<^verbatim>\<open>{{\<close> and \<^verbatim>\<open>}}\<close>
  are escaped braces, a single \<^verbatim>\<open>}\<close> raises ValueError, and \<^verbatim>\<open>{name}\<close> is replaced by
  the keyword argument of that name, whose text is inserted as it is and not scanned
  again. A replacement field that is not closed raises ValueError; a field whose name is
  empty or a number asks for a positional argument (there is none: IndexError); a name
  that is no keyword raises KeyError. Fields with a conversion, a format specification,
  an attribute or an index are not used by the program and are outside the model.
\<close>

definition cons_ok :: "char \<Rightarrow> error + string \<Rightarrow> error + string" where
  "cons_ok c r = (case r of Inl e \<Rightarrow> Inl e | Inr s \<Rightarrow> Inr (c # s))"

definition append_ok :: "string \<Rightarrow> error + string \<Rightarrow> error + string" where
  "append_ok v r = (case r of Inl e \<Rightarrow> Inl e | Inr s \<Rightarrow> Inr (v @ s))"

definition plain_field :: "string \<Rightarrow> bool" where
  "plain_field name = (\<forall>c \<in> set name. c \<notin> set ''{!:.['')"

definition positional_field :: "string \<Rightarrow> bool" where
  "positional_field name = (\<forall>c \<in> set name. c \<in> set ''0123456789'')"

function format_fields :: "string \<Rightarrow> (string \<rightharpoonup> string) \<Rightarrow> error + string" where
  "format_fields [] kw = Inr []"
| "format_fields (c # cs) kw =
     (if c = CHR ''{'' then
        (case cs of
           [] \<Rightarrow> Inl ValueError
         | d # ds \<Rightarrow>
             if d = CHR ''{'' then cons_ok CHR ''{'' (format_fields ds kw)
             else
               (let name = takeWhile (\<lambda>x. x \<noteq> CHR ''}'') cs;
                    rest = dropWhile (\<lambda>x. x \<noteq> CHR ''}'') cs
                in if rest = [] then Inl ValueError
                   else if \<not> plain_field name then Inl NotModelled
                   else if positional_field name then Inl IndexError
                   else (case kw name of
                           None \<Rightarrow> Inl (KeyError name)
                         | Some v \<Rightarrow> append_ok v (format_fields (tl rest) kw))))
      else if c = CHR ''}'' then
        (case cs of
           [] \<Rightarrow> Inl ValueError
         | d # ds \<Rightarrow>
             if d = CHR ''}'' then cons_ok CHR ''}'' (format_fields ds kw)
             else Inl ValueError)
      else cons_ok c (format_fields cs kw))"
  by pat_completeness auto
termination
proof (relation "measure (\<lambda>(s, kw). length s)")
  fix c :: char and cs :: string and kw :: "string \<rightharpoonup> string"
    and name rest :: string
  assume "rest = dropWhile (\<lambda>x. x \<noteq> CHR ''}'') cs"
  then have "length (tl rest) \<le> length cs"
    using length_dropWhile_le [of "\<lambda>x. x \<noteq> CHR ''}''" cs] by simp
  then show "((tl rest, kw), c # cs, kw) \<in> measure (\<lambda>(s, kw). length s)"
    by simp
qed auto

subsection \<open>\<^verbatim>\<open>re.search\<close>\<close>

text \<open>
  Python's \<^verbatim>\<open>re\<close> is a backtracking matcher: \<^verbatim>\<open>search\<close> tries the start positions
  from left to right and returns the first match found; at a position the pattern's items
  are matched in order, a greedy item trying its longest alternative first and a lazy
  item its shortest, and an item gives back (or takes more) only after everything that
  follows it has failed. The two patterns of the program are sequences of the items
  below; both have exactly one group, so a successful match is returned as the text of
  group 1.
\<close>

datatype cclass =
    Dot_all  \<comment> \<open>\<^verbatim>\<open>.\<close> under \<^verbatim>\<open>re.DOTALL\<close>: any character\<close>
  | Space    \<comment> \<open>\<^verbatim>\<open>\s\<close>\<close>

fun in_class :: "cclass \<Rightarrow> char \<Rightarrow> bool" where
  "in_class Dot_all c = True"
| "in_class Space c = isspace c"

datatype atom =
    Lit string            \<comment> \<open>literal text\<close>
  | Opt string            \<comment> \<open>\<^verbatim>\<open>(?:text)?\<close>, greedy\<close>
  | Star cclass           \<comment> \<open>\<^verbatim>\<open>c*\<close>, greedy, outside the group\<close>
  | Group_greedy cclass   \<comment> \<open>\<^verbatim>\<open>(c*)\<close>, group 1\<close>
  | Group_lazy cclass     \<comment> \<open>\<^verbatim>\<open>(c*?)\<close>, group 1\<close>
  | Eol                   \<comment> \<open>\<^verbatim>\<open>$\<close> under \<^verbatim>\<open>re.MULTILINE\<close>\<close>

text \<open>
  \<open>greedy cl k taken s\<close>: the repetition has consumed \<open>taken\<close> and stands before \<open>s\<close>;
  \<open>k taken' rest\<close> is the rest of the pattern tried after the repetition consumed
  \<open>taken'\<close>. The longest repetition is tried first.
\<close>

fun greedy :: "cclass \<Rightarrow> (string \<Rightarrow> string \<Rightarrow> 'r option) \<Rightarrow> string \<Rightarrow> string \<Rightarrow> 'r option" where
  "greedy cl k taken [] = k taken []"
| "greedy cl k taken (c # cs) =
     (if in_class cl c then
        (case greedy cl k (taken @ [c]) cs of
           Some r \<Rightarrow> Some r
         | None \<Rightarrow> k taken (c # cs))
      else k taken (c # cs))"

text \<open>The lazy repetition tries the rest of the pattern first and takes one more
  character only when that fails.\<close>

fun lazy :: "cclass \<Rightarrow> (string \<Rightarrow> string \<Rightarrow> 'r option) \<Rightarrow> string \<Rightarrow> string \<Rightarrow> 'r option" where
  "lazy cl k taken [] = k taken []"
| "lazy cl k taken (c # cs) =
     (case k taken (c # cs) of
        Some r \<Rightarrow> Some r
      | None \<Rightarrow> if in_class cl c then lazy cl k (taken @ [c]) cs else None)"

definition at_eol :: "string \<Rightarrow> bool" where
  "at_eol s = (case s of [] \<Rightarrow> True | c # _ \<Rightarrow> c = CHR 0x0A)"

text \<open>\<open>match_here p s g\<close>: match the items \<open>p\<close> at the start of \<open>s\<close>; \<open>g\<close> is the text of
  group 1 so far. The result is group 1 of the match, or \<open>None\<close>.\<close>

fun match_here :: "atom list \<Rightarrow> string \<Rightarrow> string \<Rightarrow> string option" where
  "match_here [] s g = Some g"
| "match_here (Lit l # p) s g =
     (if prefix l s then match_here p (drop (length l) s) g else None)"
| "match_here (Opt l # p) s g =
     (if prefix l s then
        (case match_here p (drop (length l) s) g of
           Some r \<Rightarrow> Some r
         | None \<Rightarrow> match_here p s g)
      else match_here p s g)"
| "match_here (Star cl # p) s g = greedy cl (\<lambda>taken rest. match_here p rest g) [] s"
| "match_here (Group_greedy cl # p) s g = greedy cl (\<lambda>taken rest. match_here p rest taken) [] s"
| "match_here (Group_lazy cl # p) s g = lazy cl (\<lambda>taken rest. match_here p rest taken) [] s"
| "match_here (Eol # p) s g = (if at_eol s then match_here p s g else None)"

text \<open>\<^verbatim>\<open>pattern.search(s)\<close>, returning \<^verbatim>\<open>m.group(1)\<close> of the match.\<close>

fun search :: "atom list \<Rightarrow> string \<Rightarrow> string option" where
  "search p [] = match_here p [] []"
| "search p (c # cs) =
     (case match_here p (c # cs) [] of
        Some g \<Rightarrow> Some g
      | None \<Rightarrow> search p cs)"

section \<open>Data types\<close>

text \<open>The command line (\<^verbatim>\<open>build_cli\<close>). The two floating-point options are only handed
  to the model API; they are kept as rationals.\<close>

record args =
  model :: string
  dataset :: string
  split_name :: string
  max_items :: "int option"
  temperature :: rat
  top_p :: rat
  max_output_tokens :: int
  seed :: int
  parallel :: int
  timeout_sec :: int
  outdir :: string
  dry_run :: bool

record task =
  idx :: nat
  task_id :: string
  entry_point :: string
  prompt :: string
  test :: string
  difficulty_scale :: "string option"

record result =
  task_id :: string
  entry_point :: string
  passed :: bool
  error :: "string option"
  gen_tokens :: "int option"
  prompt_chars :: nat
  completion_chars :: nat
  latency_s :: rat
  difficulty_scale :: "string option"
  model :: string
  file_path :: string

section \<open>Prompting helpers\<close>

text \<open>\<^verbatim>\<open>CODE_BLOCK_RE = re.compile(r"```(?:python)?\s*(.*?)```", re.DOTALL)\<close>\<close>

definition CODE_BLOCK_RE :: "atom list" where
  "CODE_BLOCK_RE = [Lit ''```'', Opt ''python'', Star Space, Group_lazy Dot_all, Lit ''```'']"

definition extract_code_only :: "string \<Rightarrow> string" where
  "extract_code_only text =
     (case search CODE_BLOCK_RE text of
        Some g \<Rightarrow> strip g
      | None \<Rightarrow> strip text)"

definition SYSTEM_INSTRUCTIONS :: string where
  \<open>SYSTEM_INSTRUCTIONS =
 ''You are a senior Qiskit+Python developer.\<newline>Given a prompt that already includes imports and a function signature docstring, return a FULL, correct Python function implementation that matches the signature. Requirements:\<newline>- Output ONLY Python code. No Markdown, no ``` fences, no prose.\<newline>- Define exactly one function named as specified by the signature.\<newline>- Assume imports present in the prompt are available; avoid extra imports unless necessary.\<newline>- Avoid network calls or file I/O.\<newline>''\<close>

definition USER_SUFFIX :: string where
  \<open>USER_SUFFIX =
 ''\<newline>\<newline># Implement the required function now.\<newline># IMPORTANT: Output ONLY the function definition (no imports, no tests, no comments above the def).\<newline>''\<close>

section \<open>The model call\<close>

text \<open>
  \<^verbatim>\<open>client.responses.create(...)\<close> is the model API: what it answers is not decided by the
  program, so the answer to a request is a parameter of the model. It either returns a
  response (its \<^verbatim>\<open>output_text\<close>, and the \<^verbatim>\<open>output_tokens\<close> of its usage when there is
  one), or raises one of the three exception classes that \<^verbatim>\<open>call_openai\<close> names, carrying
  the exception's text.
\<close>

record request =
  model :: string
  instructions :: string
  input_text :: string
  temperature :: rat
  top_p :: rat
  max_output_tokens :: int

datatype api_outcome =
    Response "string option" "int option"
  | APIStatusError string
  | APIConnectionError string
  | APIError string

definition call_openai ::
  "(request \<Rightarrow> api_outcome) \<Rightarrow> string \<Rightarrow> string \<Rightarrow> rat \<Rightarrow> rat \<Rightarrow> int \<Rightarrow> int
     \<Rightarrow> error + (string \<times> int option)" where
  "call_openai client model' prompt' temperature' top_p' max_output_tokens' seed' =
     (let input_text' = prompt' @ USER_SUFFIX
      in case client \<lparr> request.model = model', instructions = SYSTEM_INSTRUCTIONS,
                       input_text = input_text', request.temperature = temperature',
                       request.top_p = top_p', request.max_output_tokens = max_output_tokens' \<rparr> of
           APIStatusError e \<Rightarrow> Inl (RuntimeError (''OpenAI API error: '' @ e))
         | APIConnectionError e \<Rightarrow> Inl (RuntimeError (''OpenAI API error: '' @ e))
         | APIError e \<Rightarrow> Inl (RuntimeError (''OpenAI API error: '' @ e))
         | Response output_text out_tok \<Rightarrow>
             Inr (strip (case output_text of None \<Rightarrow> [] | Some t \<Rightarrow> t), out_tok))"

section \<open>The execution harness\<close>

text \<open>The template of the assembled program, \<^verbatim>\<open>EXEC_TEMPLATE\<close> (438 characters).\<close>

definition EXEC_TEMPLATE :: string where
  \<open>EXEC_TEMPLATE =
 ''# === BEGIN PROMPT (dataset) ===\<newline>{prompt}\<newline>\<newline># === BEGIN MODEL COMPLETION ===\<newline>{completion}\<newline>\<newline># === BEGIN TEST CODE (dataset) ===\<newline>{test_code}\<newline>\<newline># === HARNESS ===\<newline>def __run_check():\<newline>    # Import the solution function by name and run dataset's check()\<newline>    return check({entry_point})\<newline>\<newline>if __name__ == "__main__":\<newline>    try:\<newline>        __run_check()\<newline>        print("___QHE_PASS___")\<newline>    except Exception as e:\<newline>        print("___QHE_FAIL___:" + repr(e))\<newline>''\<close>

text \<open>
  Step 2 of \<^verbatim>\<open>evaluate\<close>:
  \<^verbatim>\<open>EXEC_TEMPLATE.format(prompt=..., completion=..., test_code=..., entry_point=...)\<close>.
\<close>

definition EXEC_TEMPLATE_format :: "string \<Rightarrow> string \<Rightarrow> string \<Rightarrow> string \<Rightarrow> error + string" where
  "EXEC_TEMPLATE_format prompt' completion test_code entry_point' =
     format_fields EXEC_TEMPLATE
       [''prompt'' \<mapsto> prompt', ''completion'' \<mapsto> completion,
        ''test_code'' \<mapsto> test_code, ''entry_point'' \<mapsto> entry_point']"

subsection \<open>\<^verbatim>\<open>subprocess.run\<close>\<close>

text \<open>
  What the operating system does with the child process is a parameter as well: the
  child cannot be started (\<open>Spawn_fails\<close>, with the \<^verbatim>\<open>repr\<close> of the exception), or it is
  started and exits after some seconds with a return code and the captured output, or it
  never exits. \<^verbatim>\<open>subprocess.run(..., timeout=t)\<close> starts the child and waits for it for
  \<open>t\<close> seconds with \<^verbatim>\<open>communicate\<close>; when the wait runs out it kills the child, waits
  for it to be gone and raises \<^verbatim>\<open>TimeoutExpired\<close> again (the documented behaviour of the
  standard library). \<open>child_status\<close> is the state of the child process.
\<close>

record completed_process =
  returncode :: int
  stdout :: "string option"

datatype child_behaviour =
    Exits_after rat completed_process
  | Never_exits

datatype launch =
    Spawn_fails string
  | Spawned child_behaviour

datatype child_status = Not_started | Running | Exited | Killed

datatype run_outcome =
    Returns completed_process
  | TimeoutExpired
  | Raises string

record popen_args =
  argv :: "string list"
  stdout_pipe :: bool
  stderr_to_stdout :: bool
  timeout :: int
  text_mode :: bool
  env :: "string \<rightharpoonup> string"

definition exceeds_timeout :: "child_behaviour \<Rightarrow> int \<Rightarrow> bool" where
  "exceeds_timeout b t = (case b of Exits_after d p \<Rightarrow> of_int t < d | Never_exits \<Rightarrow> True)"

text \<open>\<^verbatim>\<open>process.communicate(timeout=t)\<close>: the output of a child that exits in time, or
  no output and a child that is still running (\<^verbatim>\<open>TimeoutExpired\<close>).\<close>

definition communicate :: "child_behaviour \<Rightarrow> int \<Rightarrow> completed_process option \<times> child_status" where
  "communicate b t =
     (case b of
        Exits_after d p \<Rightarrow> if of_int t < d then (None, Running) else (Some p, Exited)
      | Never_exits \<Rightarrow> (None, Running))"

text \<open>\<^verbatim>\<open>process.kill()\<close> followed by \<^verbatim>\<open>process.wait()\<close>.\<close>

definition kill :: "child_status \<Rightarrow> child_status" where
  "kill st = (case st of Running \<Rightarrow> Killed | _ \<Rightarrow> st)"

definition subprocess_run :: "launch \<Rightarrow> int \<Rightarrow> run_outcome \<times> child_status" where
  "subprocess_run l t =
     (case l of
        Spawn_fails e \<Rightarrow> (Raises e, Not_started)
      | Spawned b \<Rightarrow>
          (case communicate b t of
             (Some p, st) \<Rightarrow> (Returns p, st)
           | (None, st) \<Rightarrow> (TimeoutExpired, kill st)))"

text \<open>The machine the harness runs on: the interpreter's path, the environment of the
  parent process, the fresh temporary directory, and what becomes of a child started
  with given arguments on a given program file.\<close>

record os_world =
  sys_executable :: string
  environ :: "string \<rightharpoonup> string"
  tempdir :: string
  spawn :: "popen_args \<Rightarrow> string \<Rightarrow> launch"

subsection \<open>\<^verbatim>\<open>run_in_subprocess\<close>\<close>

definition QHE_PASS :: string where
  "QHE_PASS = ''___QHE_PASS___''"

definition QHE_FAIL :: string where
  "QHE_FAIL = ''___QHE_FAIL___:''"

text \<open>\<^verbatim>\<open>re.search(r"___QHE_FAIL___:(.*)$", out, flags=re.M | re.S)\<close>\<close>

definition QHE_FAIL_RE :: "atom list" where
  "QHE_FAIL_RE = [Lit QHE_FAIL, Group_greedy Dot_all, Eol]"

text \<open>The arguments of the \<^verbatim>\<open>subprocess.run\<close> call: the interpreter with \<^verbatim>\<open>-I\<close> and
  \<^verbatim>\<open>-B\<close> on the program file, and \<^verbatim>\<open>env=os.environ.copy()\<close>.\<close>

definition subprocess_args :: "os_world \<Rightarrow> int \<Rightarrow> popen_args" where
  "subprocess_args w timeout_sec' =
     \<lparr> argv = [sys_executable w, ''-I'', ''-B'', tempdir w @ ''/eval_task.py''],
       stdout_pipe = True,
       stderr_to_stdout = True,
       timeout = timeout_sec',
       text_mode = True,
       env = environ w \<rparr>"

text \<open>Lines 221 to 226: the classification of a child that exited.\<close>

definition classify :: "completed_process \<Rightarrow> bool \<times> string option" where
  "classify p =
     (let out = strip (case stdout p of None \<Rightarrow> [] | Some s \<Rightarrow> s)
      in if contains out QHE_PASS then (True, None)
         else (case search QHE_FAIL_RE out of
                 Some g \<Rightarrow> (False, Some (strip g))
               | None \<Rightarrow> (False, Some (''RuntimeError: '' @ take 5000 out))))"

text \<open>\<^verbatim>\<open>run_in_subprocess\<close>, together with the state in which it leaves the child. The
  program is written to \<^verbatim>\<open>eval_task.py\<close> in the temporary directory, which is removed
  when the function is left; the file system's own failures are outside the model.\<close>

definition run_in_subprocess_child ::
  "os_world \<Rightarrow> string \<Rightarrow> int \<Rightarrow> (bool \<times> string option) \<times> child_status" where
  "run_in_subprocess_child w code timeout_sec' =
     (case subprocess_run (spawn w (subprocess_args w timeout_sec') code) timeout_sec' of
        (TimeoutExpired, st) \<Rightarrow> ((False, Some (''Timeout('' @ str_int timeout_sec' @ ''s)'')), st)
      | (Raises e, st) \<Rightarrow> ((False, Some (''SubprocessError: '' @ e)), st)
      | (Returns p, st) \<Rightarrow> (classify p, st))"

definition run_in_subprocess :: "os_world \<Rightarrow> string \<Rightarrow> int \<Rightarrow> bool \<times> string option" where
  "run_in_subprocess w code timeout_sec' = fst (run_in_subprocess_child w code timeout_sec')"

section \<open>Main evaluation loop\<close>

subsection \<open>\<^verbatim>\<open>load_tasks\<close>\<close>

text \<open>
  A dataset row is a dictionary from column names to values; the columns the program
  reads hold strings (\<^verbatim>\<open>row[k]\<close> raises KeyError and \<^verbatim>\<open>row.get(k)\<close> gives \<^verbatim>\<open>None\<close> for a
  column that is absent). \<^verbatim>\<open>load_dataset\<close> is the dataset collaborator: it returns the
  rows of the split in order or fails, and is a parameter of the model.
\<close>

type_synonym row = "string \<rightharpoonup> string"

definition make_task :: "nat \<Rightarrow> row \<Rightarrow> error + task" where
  "make_task i r =
     (case r ''entry_point'' of
        None \<Rightarrow> Inl (KeyError ''entry_point'')
      | Some ep \<Rightarrow>
          (case r ''prompt'' of
             None \<Rightarrow> Inl (KeyError ''prompt'')
           | Some p \<Rightarrow>
               (case r ''test'' of
                  None \<Rightarrow> Inl (KeyError ''test'')
                | Some t \<Rightarrow>
                    Inr \<lparr> idx = i,
                          task.task_id = (case r ''task_id'' of None \<Rightarrow> str_nat i | Some v \<Rightarrow> v),
                          task.entry_point = ep,
                          prompt = p,
                          test = t,
                          task.difficulty_scale = r ''difficulty_scale'' \<rparr>)))"

text \<open>The loop \<^verbatim>\<open>for i, row in enumerate(ds)\<close>, with \<open>i\<close> the index of the next row and
  \<open>tasks\<close> the list built so far.\<close>

fun load_loop :: "int option \<Rightarrow> nat \<Rightarrow> row list \<Rightarrow> task list \<Rightarrow> error + task list" where
  "load_loop limit i [] tasks = Inr tasks"
| "load_loop limit i (r # rows) tasks =
     (if (case limit of None \<Rightarrow> False | Some l \<Rightarrow> int i \<ge> l) then Inr tasks
      else (case make_task i r of
              Inl e \<Rightarrow> Inl e
            | Inr t \<Rightarrow> load_loop limit (Suc i) rows (tasks @ [t])))"

definition load_tasks ::
  "(string \<Rightarrow> string \<Rightarrow> error + row list) \<Rightarrow> string \<Rightarrow> string \<Rightarrow> int option \<Rightarrow> error + task list" where
  "load_tasks load_dataset dataset' split' limit =
     (case load_dataset dataset' split' of
        Inl e \<Rightarrow> Inl e
      | Inr ds \<Rightarrow> load_loop limit 0 ds [])"

subsection \<open>The world and the state of a run\<close>

text \<open>
  Everything \<^verbatim>\<open>evaluate\<close> gets from outside: the dataset, the answer of the model API to
  its \<open>n\<close>-th call, the machine that runs the children, the clock's time stamp and the
  seconds measured around the execution of the task with a given index. Creating the
  API client and the output directories and writing the files are taken to succeed.
\<close>

record world =
  load_dataset :: "string \<Rightarrow> string \<Rightarrow> error + row list"
  client :: "nat \<Rightarrow> request \<Rightarrow> api_outcome"
  os :: os_world
  now_stamp :: string
  elapsed :: "nat \<Rightarrow> rat"

text \<open>The state of the loop over the tasks: the completion files (path to text), the
  number of model calls made, and the results recorded so far.\<close>

record run_state =
  generations :: "string \<rightharpoonup> string"
  calls :: nat
  results :: "result list"

text \<open>\<^verbatim>\<open>f"{t.idx:03d}_{t.entry_point}.py"\<close> under the generations directory.\<close>

definition zfill :: "nat \<Rightarrow> string \<Rightarrow> string" where
  "zfill n s = replicate (n - length s) CHR ''0'' @ s"

definition gen_path :: "string \<Rightarrow> task \<Rightarrow> string" where
  "gen_path gens_dir t =
     gens_dir @ ''/'' @ zfill 3 (str_nat (idx t)) @ ''_'' @ task.entry_point t @ ''.py''"

subsection \<open>One task\<close>

text \<open>Step 1 of the loop body: the completion is read from the cache (dry run, and the
  file exists) or asked of the model; \<^verbatim>\<open>except RuntimeError\<close> turns a failed call into the
  empty text and no token count.\<close>

definition get_completion ::
  "args \<Rightarrow> world \<Rightarrow> string \<Rightarrow> run_state \<Rightarrow> task \<Rightarrow> error + (string \<times> int option \<times> run_state)" where
  "get_completion a w gens_dir st t =
     (let gp = gen_path gens_dir t
      in case (if dry_run a then generations st gp else None) of
           Some cached \<Rightarrow> Inr (cached, None, st)
         | None \<Rightarrow>
             (case (case call_openai (client w (calls st)) (args.model a) (prompt t)
                           (args.temperature a) (args.top_p a) (args.max_output_tokens a) (seed a) of
                      Inr r \<Rightarrow> Inr r
                    | Inl e \<Rightarrow>
                        (case e of
                           RuntimeError m \<Rightarrow> Inr ([], None)
                         | _ \<Rightarrow> Inl e)) of
                Inl e \<Rightarrow> Inl e
              | Inr (raw_text, output_tokens) \<Rightarrow>
                  (let completion_text = extract_code_only raw_text
                   in Inr (completion_text, output_tokens,
                           st\<lparr> generations := (generations st)(gp \<mapsto> completion_text),
                               calls := Suc (calls st) \<rparr>))))"

text \<open>Steps 2 to 4: assemble the program, run it, record the result.\<close>

definition evaluate_task :: "args \<Rightarrow> world \<Rightarrow> string \<Rightarrow> run_state \<Rightarrow> task \<Rightarrow> error + run_state" where
  "evaluate_task a w gens_dir st t =
     (case get_completion a w gens_dir st t of
        Inl e \<Rightarrow> Inl e
      | Inr (completion_text, output_tokens, st1) \<Rightarrow>
          (case EXEC_TEMPLATE_format (prompt t) completion_text (test t) (task.entry_point t) of
             Inl e \<Rightarrow> Inl e
           | Inr program \<Rightarrow>
               (let (passed', err) = run_in_subprocess (os w) program (timeout_sec a);
                    res = \<lparr> result.task_id = task.task_id t,
                            result.entry_point = task.entry_point t,
                            passed = passed',
                            error = err,
                            gen_tokens = output_tokens,
                            prompt_chars = length (prompt t),
                            completion_chars = length completion_text,
                            latency_s = elapsed w (idx t),
                            result.difficulty_scale = task.difficulty_scale t,
                            result.model = args.model a,
                            file_path = gen_path gens_dir t \<rparr>
                in Inr (st1\<lparr> results := results st1 @ [res] \<rparr>))))"

fun run_tasks :: "args \<Rightarrow> world \<Rightarrow> string \<Rightarrow> run_state \<Rightarrow> task list \<Rightarrow> error + run_state" where
  "run_tasks a w gens_dir st [] = Inr st"
| "run_tasks a w gens_dir st (t # ts) =
     (case evaluate_task a w gens_dir st t of
        Inl e \<Rightarrow> Inl e
      | Inr st' \<Rightarrow> run_tasks a w gens_dir st' ts)"

subsection \<open>Summary and persistence\<close>

record summary =
  model :: string
  dataset :: string
  split_name :: string
  timestamp :: string
  pass_at_1 :: rat
  passed :: nat
  total :: nat
  by_difficulty :: "(string option \<times> nat \<times> nat) list"

text \<open>What the summary step has written when it is left: the table (its header and
  rows) and the summary document, each \<open>None\<close> when the file was not written.\<close>

record persisted =
  results_csv :: "(string list \<times> result list) option"
  summary_json :: "summary option"

text \<open>
  \<^verbatim>\<open>sorted(xs)\<close> on labels that are strings or \<^verbatim>\<open>None\<close>: a list of at most one element
  is returned without a comparison; otherwise every element is compared with another
  one, and comparing \<^verbatim>\<open>None\<close> with anything raises TypeError. Strings are ordered by
  code points.
\<close>

definition py_sorted :: "string option list \<Rightarrow> error + string option list" where
  "py_sorted ks =
     (if length ks \<le> 1 then Inr ks
      else if None \<in> set ks then Inl TypeError
      else Inr (map Some (sort (concat (map (\<lambda>k. case k of None \<Rightarrow> [] | Some l \<Rightarrow> [l]) ks)))))"

text \<open>The dictionary comprehension of \<^verbatim>\<open>by_difficulty\<close>: one entry (passed, total) for each
  label of the sorted set of labels.\<close>

definition by_difficulty_of :: "result list \<Rightarrow> error + (string option \<times> nat \<times> nat) list" where
  "by_difficulty_of rs =
     (case py_sorted (remdups (map result.difficulty_scale rs)) of
        Inl e \<Rightarrow> Inl e
      | Inr ks \<Rightarrow>
          Inr (map (\<lambda>k. (k,
                         length (filter (\<lambda>r. result.passed r \<and> result.difficulty_scale r = k) rs),
                         length (filter (\<lambda>r. result.difficulty_scale r = k) rs))) ks))"

text \<open>\<^verbatim>\<open>list(asdict(r).keys())\<close>\<close>

definition fieldnames :: "result \<Rightarrow> string list" where
  "fieldnames r =
     [''task_id'', ''entry_point'', ''passed'', ''error'', ''gen_tokens'', ''prompt_chars'',
      ''completion_chars'', ''latency_s'', ''difficulty_scale'', ''model'', ''file_path'']"

text \<open>
  The part of \<^verbatim>\<open>evaluate\<close> after the loop. \<^verbatim>\<open>csv_path.open("w")\<close> creates the table file
  before \<^verbatim>\<open>results[0]\<close> is read for the header; the summary file is written last.
\<close>

definition summarize_and_persist :: "args \<Rightarrow> string \<Rightarrow> result list \<Rightarrow> error option \<times> persisted" where
  "summarize_and_persist a run_ts rs =
     (let passed_n = length (filter result.passed rs);
          total_n = length rs;
          pass_at_1' = (if total_n \<noteq> 0 then of_nat passed_n / of_nat total_n else 0)
      in case rs of
           [] \<Rightarrow> (Some IndexError, \<lparr> results_csv = Some ([], []), summary_json = None \<rparr>)
         | r0 # _ \<Rightarrow>
             (case by_difficulty_of rs of
                Inl e \<Rightarrow> (Some e, \<lparr> results_csv = Some (fieldnames r0, rs), summary_json = None \<rparr>)
              | Inr bd \<Rightarrow>
                  (None,
                   \<lparr> results_csv = Some (fieldnames r0, rs),
                     summary_json = Some
                       \<lparr> summary.model = args.model a,
                         summary.dataset = args.dataset a,
                         summary.split_name = args.split_name a,
                         timestamp = run_ts,
                         pass_at_1 = pass_at_1',
                         summary.passed = passed_n,
                         total = total_n,
                         by_difficulty = bd \<rparr> \<rparr>)))"

subsection \<open>\<^verbatim>\<open>evaluate\<close>\<close>

text \<open>\<^verbatim>\<open>Path(dataset).name\<close>: the last component of the dataset's name.\<close>

definition path_name :: "string \<Rightarrow> string" where
  "path_name s =
     rev (takeWhile (\<lambda>c. c \<noteq> CHR ''/'') (dropWhile (\<lambda>c. c = CHR ''/'') (rev s)))"

definition out_root_of :: "args \<Rightarrow> string \<Rightarrow> string" where
  "out_root_of a run_ts =
     outdir a @ ''/'' @ path_name (args.dataset a) @ ''_'' @ run_ts @ ''_''
       @ map (\<lambda>c. if c = CHR ''/'' then CHR ''_'' else c) (args.model a)"

text \<open>The first part of \<^verbatim>\<open>evaluate\<close>: loading the tasks and the loop over them, from the
  completion files \<open>gens\<close> that exist when the run starts.\<close>

definition process_tasks :: "args \<Rightarrow> world \<Rightarrow> (string \<rightharpoonup> string) \<Rightarrow> error + run_state" where
  "process_tasks a w gens =
     (let gens_dir = out_root_of a (now_stamp w) @ ''/generations''
      in case load_tasks (load_dataset w) (args.dataset a) (args.split_name a) (max_items a) of
           Inl e \<Rightarrow> Inl e
         | Inr tasks \<Rightarrow>
             run_tasks a w gens_dir \<lparr> generations = gens, calls = 0, results = [] \<rparr> tasks)"

definition evaluate :: "args \<Rightarrow> world \<Rightarrow> (string \<rightharpoonup> string) \<Rightarrow> error option \<times> persisted" where
  "evaluate a w gens =
     (case process_tasks a w gens of
        Inl e \<Rightarrow> (Some e, \<lparr> results_csv = None, summary_json = None \<rparr>)
      | Inr st \<Rightarrow> summarize_and_persist a (now_stamp w) (results st))"

section \<open>Notions used to state the properties\<close>

text \<open>
  \<open>split_first needle s\<close> cuts \<open>s\<close> at the first (leftmost) occurrence of \<open>needle\<close>: the
  text before the occurrence and the text after it; \<open>None\<close> when \<open>needle\<close> does not
  occur in \<open>s\<close>.
\<close>

fun split_first :: "string \<Rightarrow> string \<Rightarrow> (string \<times> string) option" where
  "split_first needle [] = (if needle = [] then Some ([], []) else None)"
| "split_first needle (c # cs) =
     (if prefix needle (c # cs) then Some ([], drop (length needle) (c # cs))
      else map_option (\<lambda>(a, b). (c # a, b)) (split_first needle cs))"





text \<open>An operating system that treats every child alike, for the examples.\<close>

definition always :: "launch \<Rightarrow> popen_args \<Rightarrow> string \<Rightarrow> launch" where
  "always l a code = l"

text \<open>A dataset with given rows, a model API that cannot be reached, and a clock that
  measures the same time for every task, for the examples as well.\<close>

definition fixed_dataset :: "row list \<Rightarrow> string \<Rightarrow> string \<Rightarrow> error + row list" where
  "fixed_dataset rows d s = Inr rows"







section \<open>Assembling the program\<close>

declare str_nat.simps [simp del]

lemma cons_ok_Inr: "cons_ok c (Inr s) = Inr (c # s)"
  by (simp add: cons_ok_def)

lemma append_ok_Inr: "append_ok v (Inr s) = Inr (v @ s)"
  by (simp add: append_ok_def)

lemma EXEC_TEMPLATE_format_eq:
  \<open>EXEC_TEMPLATE_format prompt' completion test_code entry_point' =
     Inr (''# === BEGIN PROMPT (dataset) ===\<newline>'' @ prompt'
       @ ''\<newline>\<newline># === BEGIN MODEL COMPLETION ===\<newline>'' @ completion
       @ ''\<newline>\<newline># === BEGIN TEST CODE (dataset) ===\<newline>'' @ test_code
       @ ''\<newline>\<newline># === HARNESS ===\<newline>def __run_check():\<newline>    # Import the solution function by name and run dataset's check()\<newline>    return check('' @ entry_point'
       @ '')\<newline>\<newline>if __name__ == "__main__":\<newline>    try:\<newline>        __run_check()\<newline>        print("___QHE_PASS___")\<newline>    except Exception as e:\<newline>        print("___QHE_FAIL___:" + repr(e))\<newline>'')\<close>
  unfolding EXEC_TEMPLATE_format_def EXEC_TEMPLATE_def
  by (simp add: cons_ok_Inr append_ok_Inr plain_field_def positional_field_def)

text \<open>
  C1. Assembling the program never fails, whatever the prompt, the completion, the
  test code and the entry point are, and the assembled program contains the prompt, then
  the completion, then the test code, each as one contiguous run of the output.
\<close>

theorem C1_assemble_total_ordered:
  "\<exists>a b c d. EXEC_TEMPLATE_format prompt' completion test_code entry_point' =
     Inr (a @ prompt' @ b @ completion @ c @ test_code @ d)"
  unfolding EXEC_TEMPLATE_format_eq by blast

section \<open>Facts about stripping and searching\<close>

lemma greedy_dot_all_end:
  "k (taken @ s) [] = Some r \<Longrightarrow> greedy Dot_all k taken s = Some r"
  by (induction s arbitrary: taken) auto

lemma match_lit_rest:
  "match_here [Lit l, Group_greedy Dot_all, Eol] s g =
     (if prefix l s then Some (drop (length l) s) else None)"
  by (simp add: greedy_dot_all_end at_eol_def)

lemma search_lit_rest:
  "search [Lit l, Group_greedy Dot_all, Eol] s = map_option snd (split_first l s)"
  by (induction s) (auto simp: match_lit_rest option.map_comp comp_def split_def simp del: match_here.simps)

lemma split_first_None: "split_first n s = None \<longleftrightarrow> \<not> sublist n s"
  by (induction s) (auto simp: sublist_Cons_right)

lemma split_first_Some:
  "split_first n s = Some (a, b) \<Longrightarrow> s = a @ n @ b"
  by (induction s arbitrary: a) (auto simp: prefix_def split: if_splits)

lemma split_first_first:
  "split_first n s = Some (a, b) \<Longrightarrow> n \<noteq> [] \<Longrightarrow> \<not> sublist n (a @ butlast n)"
proof (induction s arbitrary: a)
  case Nil
  then show ?case by (auto split: if_splits)
next
  case (Cons c cs)
  show ?case
  proof (cases "prefix n (c # cs)")
    case True
    with Cons.prems have "a = []" by simp
    moreover have "\<not> sublist n (butlast n)"
      using Cons.prems(2) sublist_length_le[of n "butlast n"] by (cases n rule: rev_cases) auto
    ultimately show ?thesis by simp
  next
    case False
    with Cons.prems obtain a' where a': "split_first n cs = Some (a', b)" "a = c # a'"
      by auto
    from Cons.IH[OF a'(1) Cons.prems(2)] have IH: "\<not> sublist n (a' @ butlast n)" .
    have cs: "cs = a' @ n @ b" using split_first_Some[OF a'(1)] .
    have "\<not> prefix n (c # a' @ butlast n)"
    proof
      assume "prefix n (c # a' @ butlast n)"
      then have "prefix n (c # a' @ butlast n @ [last n] @ b)"
        by (metis append_Cons append_assoc prefix_prefix)
      then have "prefix n (c # cs)" using cs Cons.prems(2)
        by (metis append_butlast_last_id append_assoc append_Cons append_Nil)
      with False show False by simp
    qed
    with IH show ?thesis using a'(2) by (simp add: sublist_Cons_right)
  qed
qed

lemma split_first_app:
  "n \<noteq> [] \<Longrightarrow> \<not> sublist n (a @ butlast n) \<Longrightarrow> split_first n (a @ n @ b) = Some (a, b)"
proof (induction a)
  case Nil
  then show ?case by (cases n) auto
next
  case (Cons c a)
  have np: "\<not> prefix n (c # a @ n @ b)"
  proof
    assume p: "prefix n (c # a @ n @ b)"
    have "length n \<le> length (c # a @ butlast n)" using Cons.prems(1) by (cases n rule: rev_cases) auto
    moreover have "c # a @ n @ b = (c # a @ butlast n) @ (last n # b)"
      using Cons.prems(1) by (metis append_butlast_last_id append_assoc append_Cons append_Nil)
    ultimately have "prefix n (c # a @ butlast n)"
      using p by (metis prefix_length_prefix prefixI append_Cons)
    with Cons.prems(2) show False by (simp add: sublist_Cons_right)
  qed
  from Cons.prems have "\<not> sublist n (a @ butlast n)" by (simp add: sublist_Cons_right)
  with Cons.IH Cons.prems(1) have "split_first n (a @ n @ b) = Some (a, b)" by simp
  with np show ?case by simp
qed



lemma sublist_skip_space:
  "\<forall>x\<in>set w. isspace x \<Longrightarrow> n \<noteq> [] \<Longrightarrow> \<not> isspace (hd n) \<Longrightarrow> sublist n (w @ t) = sublist n t"
proof (induction w)
  case Nil
  then show ?case by simp
next
  case (Cons c w)
  have "\<not> prefix n (c # w @ t)"
    using Cons.prems by (cases n) auto
  with Cons show ?case by (simp add: sublist_Cons_right)
qed

lemma sublist_lstrip:
  assumes "n \<noteq> []" "\<not> isspace (hd n)"
  shows "sublist n (lstrip s) = sublist n s"
proof -
  have "sublist n (takeWhile isspace s @ dropWhile isspace s) = sublist n (dropWhile isspace s)"
    by (rule sublist_skip_space) (use assms in \<open>auto dest: set_takeWhileD\<close>)
  then show ?thesis by (simp add: lstrip_def)
qed

lemma rstrip_rev: "rstrip s = rev (lstrip (rev s))"
  by (simp add: rstrip_def lstrip_def)

lemma sublist_rstrip:
  assumes "n \<noteq> []" "\<not> isspace (last n)"
  shows "sublist n (rstrip s) = sublist n s"
proof -
  have "sublist (rev n) (lstrip (rev s)) = sublist (rev n) (rev s)"
    by (rule sublist_lstrip) (use assms in \<open>auto simp: hd_rev\<close>)
  then show ?thesis by (simp add: rstrip_rev sublist_rev_right)
qed

lemma contains_strip:
  "n \<noteq> [] \<Longrightarrow> \<not> isspace (hd n) \<Longrightarrow> \<not> isspace (last n) \<Longrightarrow> contains (strip s) n = contains s n"
  by (simp add: contains_def strip_def sublist_rstrip sublist_lstrip)

lemma lstrip_before:
  assumes "n \<noteq> []" "\<not> isspace (hd n)"
  shows "lstrip (a @ n @ b) = lstrip a @ n @ b"
proof -
  obtain c n' where n: "n = c # n'" "\<not> isspace c" using assms by (cases n) auto
  show ?thesis unfolding lstrip_def n using n(2)
    by (simp add: dropWhile_append)
qed

lemma rstrip_after:
  assumes "n \<noteq> []" "\<not> isspace (last n)"
  shows "rstrip (a @ n @ b) = a @ n @ rstrip b"
proof -
  have "lstrip (rev b @ rev n @ rev a) = lstrip (rev b) @ rev n @ rev a"
    by (rule lstrip_before) (use assms in \<open>auto simp: hd_rev\<close>)
  then show ?thesis by (simp add: rstrip_rev)
qed

lemma strip_around:
  assumes "n \<noteq> []" "\<not> isspace (hd n)" "\<not> isspace (last n)"
  shows "strip (a @ n @ b) = lstrip a @ n @ rstrip b"
  using assms by (simp add: strip_def lstrip_before rstrip_after)

lemma lstrip_idem: "lstrip (lstrip s) = lstrip s"
  by (simp add: lstrip_def)

lemma rstrip_idem: "rstrip (rstrip s) = rstrip s"
  by (simp add: rstrip_def)

lemma lstrip_rstrip_commute: "lstrip (rstrip s) = rstrip (lstrip s)"
proof (cases "\<forall>x\<in>set s. isspace x")
  case True
  then have *: "dropWhile isspace s = []" "dropWhile isspace (rev s) = []" by auto
  show ?thesis unfolding lstrip_def rstrip_def * by simp
next
  case False
  then obtain x where x: "x \<in> set s" "\<not> isspace x" by blast
  then obtain a b where s: "s = a @ x # b" by (metis split_list)
  have L: "lstrip (u @ x # v) = lstrip u @ x # v" for u v
    using lstrip_before[of "[x]" u v] x(2) by simp
  have R: "rstrip (u @ x # v) = u @ x # rstrip v" for u v
    using rstrip_after[of "[x]" u v] x(2) by simp
  show ?thesis unfolding s by (simp add: L R)
qed

lemma strip_rstrip: "strip (rstrip s) = strip s"
  by (simp add: strip_def lstrip_rstrip_commute rstrip_idem)


lemma strip_idem: "strip (strip s) = strip s"
  by (simp add: strip_def lstrip_rstrip_commute rstrip_idem lstrip_idem)











declare match_here.simps [simp del]














lemma search_QHE_FAIL_RE:
  "search QHE_FAIL_RE s = map_option snd (split_first QHE_FAIL s)"
  unfolding QHE_FAIL_RE_def by (rule search_lit_rest)

lemma QHE_PASS_solid: "QHE_PASS \<noteq> []" "\<not> isspace (hd QHE_PASS)" "\<not> isspace (last QHE_PASS)"
  by (simp_all add: QHE_PASS_def isspace_def)

lemma QHE_FAIL_solid: "QHE_FAIL \<noteq> []" "\<not> isspace (hd QHE_FAIL)" "\<not> isspace (last QHE_FAIL)"
  by (simp_all add: QHE_FAIL_def isspace_def)

lemma classify_eq:
  "classify p =
     (let raw = (case stdout p of None \<Rightarrow> [] | Some s \<Rightarrow> s)
      in if contains raw QHE_PASS then (True, None)
         else (case split_first QHE_FAIL (strip raw) of
                 Some (a, b) \<Rightarrow> (False, Some (strip b))
               | None \<Rightarrow> (False, Some (''RuntimeError: '' @ take 5000 (strip raw)))))"
  by (simp add: classify_def Let_def search_QHE_FAIL_RE contains_strip[OF QHE_PASS_solid]
      split: option.splits)

lemma run_in_subprocess_returns:
  assumes "spawn w (subprocess_args w t) code = Spawned (Exits_after d p)" "\<not> of_int t < d"
  shows "run_in_subprocess w code t = classify p"
  using assms by (simp add: run_in_subprocess_def run_in_subprocess_child_def subprocess_run_def communicate_def kill_def)

lemma classify_pass:
  "contains (case stdout p of None \<Rightarrow> [] | Some s \<Rightarrow> s) QHE_PASS \<Longrightarrow> classify p = (True, None)"
  by (simp add: classify_eq)

lemma classify_fail:
  assumes raw: "(case stdout p of None \<Rightarrow> [] | Some s \<Rightarrow> s) = a @ QHE_FAIL @ b"
    and nopass: "\<not> contains (a @ QHE_FAIL @ b) QHE_PASS"
    and first: "\<not> contains (a @ butlast QHE_FAIL) QHE_FAIL"
  shows "classify p = (False, Some (strip b))"
proof -
  have out: "strip (a @ QHE_FAIL @ b) = lstrip a @ QHE_FAIL @ rstrip b"
    by (rule strip_around[OF QHE_FAIL_solid])
  have "suffix (lstrip a @ butlast QHE_FAIL) (a @ butlast QHE_FAIL)"
    by (simp add: lstrip_def suffix_dropWhile)
  then have "\<not> sublist QHE_FAIL (lstrip a @ butlast QHE_FAIL)"
    using first unfolding contains_def
    by (meson suffix_imp_sublist sublist_order.order_trans)
  then have "split_first QHE_FAIL (lstrip a @ QHE_FAIL @ rstrip b) = Some (lstrip a, rstrip b)"
    using QHE_FAIL_solid(1) by (simp add: split_first_app)
  then show ?thesis using nopass by (simp add: classify_eq raw out strip_rstrip)
qed

lemma classify_neither:
  assumes "\<not> contains (case stdout p of None \<Rightarrow> [] | Some s \<Rightarrow> s) QHE_PASS"
    and "\<not> contains (case stdout p of None \<Rightarrow> [] | Some s \<Rightarrow> s) QHE_FAIL"
  shows "classify p =
     (False, Some (''RuntimeError: '' @ take 5000 (strip (case stdout p of None \<Rightarrow> [] | Some s \<Rightarrow> s))))"
proof -
  let ?raw = "case stdout p of None \<Rightarrow> [] | Some s \<Rightarrow> s"
  have "\<not> sublist QHE_FAIL (strip ?raw)"
    using assms(2) contains_strip[OF QHE_FAIL_solid, of ?raw] by (simp add: contains_def)
  then have "split_first QHE_FAIL (strip ?raw) = None" by (simp add: split_first_None)
  then show ?thesis using assms(1) by (simp add: classify_eq)
qed

lemma first_occurrence_exists:
  assumes "contains s n" "n \<noteq> []"
  shows "\<exists>a b. s = a @ n @ b \<and> \<not> contains (a @ butlast n) n"
proof -
  from assms(1) obtain a b where sp: "split_first n s = Some (a, b)"
    using split_first_None[of n s] by (cases "split_first n s") (auto simp: contains_def)
  from split_first_Some[OF sp] split_first_first[OF sp assms(2)]
  show ?thesis by (auto simp: contains_def)
qed


section \<open>Extracting the code of a response\<close>



section \<open>Classifying the captured output\<close>

text \<open>
  C2, as the code has it. For a child that exits within the timeout with captured
  output \<open>raw\<close> (the empty text when nothing was captured): if \<open>raw\<close> contains the
  success sentinel, the result is passed with no error; otherwise, if \<open>raw\<close> contains the
  failure sentinel \<^verbatim>\<open>___QHE_FAIL___:\<close>, the result is not passed and the error is the text
  after the first failure sentinel up to the end of the output, stripped; otherwise the
  result is not passed and the error is \<^verbatim>\<open>RuntimeError: \<close> followed by the first 5000
  characters of the stripped output, at most 5014 characters in all.
\<close>

theorem C2_classification:
  assumes "spawn w (subprocess_args w t) code = Spawned (Exits_after d p)"
    and "\<not> exceeds_timeout (Exits_after d p) t"
    and "raw = (case stdout p of None \<Rightarrow> [] | Some s \<Rightarrow> s)"
  shows "(contains raw QHE_PASS \<longrightarrow> run_in_subprocess w code t = (True, None))
       \<and> (\<not> contains raw QHE_PASS \<longrightarrow>
            (\<forall>a b. raw = a @ QHE_FAIL @ b \<and> \<not> contains (a @ butlast QHE_FAIL) QHE_FAIL \<longrightarrow>
               run_in_subprocess w code t = (False, Some (strip b))))
       \<and> (contains raw QHE_FAIL \<longrightarrow>
            (\<exists>a b. raw = a @ QHE_FAIL @ b \<and> \<not> contains (a @ butlast QHE_FAIL) QHE_FAIL))
       \<and> (\<not> contains raw QHE_PASS \<and> \<not> contains raw QHE_FAIL \<longrightarrow>
            run_in_subprocess w code t = (False, Some (''RuntimeError: '' @ take 5000 (strip raw)))
            \<and> length (''RuntimeError: '' @ take 5000 (strip raw)) \<le> 5014)"
proof -
  have r: "run_in_subprocess w code t = classify p"
    using assms(1,2) by (intro run_in_subprocess_returns) (auto simp: exceeds_timeout_def)
  have 1: "contains raw QHE_PASS \<longrightarrow> run_in_subprocess w code t = (True, None)"
    unfolding r assms(3) by (simp add: classify_pass)
  have 2: "\<not> contains raw QHE_PASS \<longrightarrow>
            (\<forall>a b. raw = a @ QHE_FAIL @ b \<and> \<not> contains (a @ butlast QHE_FAIL) QHE_FAIL \<longrightarrow>
               run_in_subprocess w code t = (False, Some (strip b)))"
    unfolding r using assms(3) by (auto intro!: classify_fail)
  have 3: "contains raw QHE_FAIL \<longrightarrow>
            (\<exists>a b. raw = a @ QHE_FAIL @ b \<and> \<not> contains (a @ butlast QHE_FAIL) QHE_FAIL)"
    using first_occurrence_exists[OF _ QHE_FAIL_solid(1)] by blast
  have 4: "\<not> contains raw QHE_PASS \<and> \<not> contains raw QHE_FAIL \<longrightarrow>
            run_in_subprocess w code t = (False, Some (''RuntimeError: '' @ take 5000 (strip raw)))
            \<and> length (''RuntimeError: '' @ take 5000 (strip raw)) \<le> 5014"
    unfolding r assms(3) by (simp add: classify_neither)
  from 1 2 3 4 show ?thesis by blast
qed


theorem C2_classification_witness:
  "run_in_subprocess
     \<lparr> sys_executable = ''python3'', environ = map_of [], tempdir = ''/tmp/qhe'',
       spawn = always (Spawned (Exits_after 1
                 \<lparr> returncode = 0, stdout = Some ''ok\<newline>___QHE_PASS___\<newline>'' \<rparr>)) \<rparr>
     ''pass'' 45 = (True, None)
   \<and> run_in_subprocess
     \<lparr> sys_executable = ''python3'', environ = map_of [], tempdir = ''/tmp/qhe'',
       spawn = always (Spawned (Exits_after 1
                 \<lparr> returncode = 0, stdout = Some ''noise\<newline>___QHE_FAIL___:ValueError(7)\<newline>'' \<rparr>)) \<rparr>
     ''pass'' 45 = (False, Some ''ValueError(7)'')
   \<and> run_in_subprocess
     \<lparr> sys_executable = ''python3'', environ = map_of [], tempdir = ''/tmp/qhe'',
       spawn = always (Spawned (Exits_after 1
                 \<lparr> returncode = 1, stdout = Some '' SyntaxError: invalid syntax\<newline>'' \<rparr>)) \<rparr>
     ''pass'' 45 = (False, Some ''RuntimeError: SyntaxError: invalid syntax'')"
proof -
  let ?w = "\<lambda>rc out. \<lparr> sys_executable = ''python3'', environ = map_of [], tempdir = ''/tmp/qhe'',
       spawn = always (Spawned (Exits_after 1 \<lparr> returncode = rc, stdout = Some out \<rparr>)) \<rparr>"
  have sp: "spawn (?w rc out) (subprocess_args (?w rc out) 45) ''pass''
      = Spawned (Exits_after 1 \<lparr> returncode = rc, stdout = Some out \<rparr>)" for rc out
    by (simp add: always_def)
  have tm: "\<not> exceeds_timeout (Exits_after 1 \<lparr> returncode = rc, stdout = Some out \<rparr>) 45" for rc out
    by (simp add: exceeds_timeout_def)
  have raw: "out = (case stdout \<lparr> returncode = rc, stdout = Some out \<rparr> of None \<Rightarrow> [] | Some s \<Rightarrow> s)"
    for rc :: int and out
    by simp
  have 1: "run_in_subprocess (?w 0 ''ok\<newline>___QHE_PASS___\<newline>'') ''pass'' 45 = (True, None)"
  proof -
    have "contains ''ok\<newline>___QHE_PASS___\<newline>'' QHE_PASS" by code_simp
    with C2_classification[OF sp[where rc = 0 and out = "''ok\<newline>___QHE_PASS___\<newline>''"] tm[where rc = 0 and out = "''ok\<newline>___QHE_PASS___\<newline>''"] raw[where rc = 0 and out = "''ok\<newline>___QHE_PASS___\<newline>''"]] show ?thesis by blast
  qed
  have 2: "run_in_subprocess (?w 0 ''noise\<newline>___QHE_FAIL___:ValueError(7)\<newline>'') ''pass'' 45
      = (False, Some ''ValueError(7)'')"
  proof -
    have a: "\<not> contains ''noise\<newline>___QHE_FAIL___:ValueError(7)\<newline>'' QHE_PASS" by code_simp
    have b: "''noise\<newline>___QHE_FAIL___:ValueError(7)\<newline>'' = ''noise\<newline>'' @ QHE_FAIL @ ''ValueError(7)\<newline>''"
      by (simp add: QHE_FAIL_def)
    have c: "\<not> contains (''noise\<newline>'' @ butlast QHE_FAIL) QHE_FAIL" by code_simp
    have d: "strip ''ValueError(7)\<newline>'' = ''ValueError(7)''" by code_simp
    from C2_classification[OF sp[where rc = 0 and out = "''noise\<newline>___QHE_FAIL___:ValueError(7)\<newline>''"] tm[where rc = 0 and out = "''noise\<newline>___QHE_FAIL___:ValueError(7)\<newline>''"] raw[where rc = 0 and out = "''noise\<newline>___QHE_FAIL___:ValueError(7)\<newline>''"]] a b c
    have "run_in_subprocess (?w 0 ''noise\<newline>___QHE_FAIL___:ValueError(7)\<newline>'') ''pass'' 45
      = (False, Some (strip ''ValueError(7)\<newline>''))" by blast
    then show ?thesis by (simp only: d)
  qed
  have 3: "run_in_subprocess (?w 1 '' SyntaxError: invalid syntax\<newline>'') ''pass'' 45
      = (False, Some ''RuntimeError: SyntaxError: invalid syntax'')"
  proof -
    have a: "\<not> contains '' SyntaxError: invalid syntax\<newline>'' QHE_PASS" by code_simp
    have b: "\<not> contains '' SyntaxError: invalid syntax\<newline>'' QHE_FAIL" by code_simp
    have d: "''RuntimeError: '' @ take 5000 (strip '' SyntaxError: invalid syntax\<newline>'')
        = ''RuntimeError: SyntaxError: invalid syntax''" by code_simp
    from C2_classification[OF sp[where rc = 1 and out = "'' SyntaxError: invalid syntax\<newline>''"] tm[where rc = 1 and out = "'' SyntaxError: invalid syntax\<newline>''"] raw[where rc = 1 and out = "'' SyntaxError: invalid syntax\<newline>''"]] a b
    have "run_in_subprocess (?w 1 '' SyntaxError: invalid syntax\<newline>'') ''pass'' 45
      = (False, Some (''RuntimeError: '' @ take 5000 (strip '' SyntaxError: invalid syntax\<newline>'')))"
      by blast
    then show ?thesis by (simp only: d)
  qed
  from 1 2 3 show ?thesis by simp
qed


text \<open>
  As the specification states it, the error of the last case is a prefix of the
  captured output. For the output \<^verbatim>\<open>boom\<close> the error is \<^verbatim>\<open>RuntimeError: boom\<close>, which is
  not a prefix of \<^verbatim>\<open>boom\<close>.
\<close>

theorem C2_counterexample:
  "run_in_subprocess
     \<lparr> sys_executable = ''python3'', environ = map_of [], tempdir = ''/tmp/qhe'',
       spawn = always (Spawned (Exits_after 1 \<lparr> returncode = 1, stdout = Some ''boom'' \<rparr>)) \<rparr>
     ''raise SystemExit(1)'' 45 = (False, Some ''RuntimeError: boom'')
   \<and> \<not> prefix ''RuntimeError: boom'' ''boom''"
  by (simp add: run_in_subprocess_def run_in_subprocess_child_def subprocess_run_def communicate_def kill_def always_def
      classify_def Let_def contains_def QHE_PASS_def QHE_FAIL_RE_def QHE_FAIL_def
      sublist_Cons_right match_here.simps
      strip_def lstrip_def rstrip_def isspace_def at_eol_def)

text \<open>
  C10. When the captured output contains both sentinels, the success sentinel is looked
  for first and the result is passed with no error. The return code of the child is
  never read: any two children that exit within the timeout with the same captured
  output are classified alike, whatever their return codes (and whatever the program,
  the machine and the time they took).
\<close>

theorem C10_pass_first_returncode_ignored:
  assumes "spawn w (subprocess_args w t) code = Spawned (Exits_after d p)"
    and "\<not> exceeds_timeout (Exits_after d p) t"
  shows "(\<forall>raw. stdout p = Some raw \<and> contains raw QHE_PASS \<and> contains raw QHE_FAIL \<longrightarrow>
            run_in_subprocess w code t = (True, None))
       \<and> (\<forall>w' code' t' d' p'.
            spawn w' (subprocess_args w' t') code' = Spawned (Exits_after d' p')
            \<and> \<not> exceeds_timeout (Exits_after d' p') t'
            \<and> stdout p' = stdout p \<longrightarrow>
            run_in_subprocess w' code' t' = run_in_subprocess w code t)"
proof -
  have r: "run_in_subprocess w code t = classify p"
    using assms by (intro run_in_subprocess_returns) (auto simp: exceeds_timeout_def)
  have 1: "run_in_subprocess w code t = (True, None)"
    if "stdout p = Some raw" "contains raw QHE_PASS" for raw
    unfolding r using that by (simp add: classify_pass)
  have 2: "run_in_subprocess w' code' t' = run_in_subprocess w code t"
    if "spawn w' (subprocess_args w' t') code' = Spawned (Exits_after d' p')"
      "\<not> exceeds_timeout (Exits_after d' p') t'" "stdout p' = stdout p"
    for w' code' t' d' p'
  proof -
    have "run_in_subprocess w' code' t' = classify p'"
      using that by (intro run_in_subprocess_returns) (auto simp: exceeds_timeout_def)
    moreover have "classify p' = classify p" using that(3) by (simp add: classify_def)
    ultimately show ?thesis by (simp add: r)
  qed
  from 1 2 show ?thesis by blast
qed


theorem C10_pass_first_returncode_ignored_witness:
  "run_in_subprocess
     \<lparr> sys_executable = ''python3'', environ = map_of [], tempdir = ''/tmp/qhe'',
       spawn = always (Spawned (Exits_after 1
         \<lparr> returncode = 1, stdout = Some ''___QHE_FAIL___:AssertionError()\<newline>___QHE_PASS___'' \<rparr>)) \<rparr>
     ''pass'' 45 = (True, None)
   \<and> run_in_subprocess
     \<lparr> sys_executable = ''python3'', environ = map_of [], tempdir = ''/tmp/qhe'',
       spawn = always (Spawned (Exits_after 3
         \<lparr> returncode = 0, stdout = Some ''___QHE_FAIL___:AssertionError()\<newline>___QHE_PASS___'' \<rparr>)) \<rparr>
     ''pass'' 45
     = run_in_subprocess
     \<lparr> sys_executable = ''python3'', environ = map_of [], tempdir = ''/tmp/qhe'',
       spawn = always (Spawned (Exits_after 1
         \<lparr> returncode = 1, stdout = Some ''___QHE_FAIL___:AssertionError()\<newline>___QHE_PASS___'' \<rparr>)) \<rparr>
     ''pass'' 45"
proof -
  let ?out = "''___QHE_FAIL___:AssertionError()\<newline>___QHE_PASS___''"
  let ?w = "\<lambda>d rc. \<lparr> sys_executable = ''python3'', environ = map_of [], tempdir = ''/tmp/qhe'',
       spawn = always (Spawned (Exits_after d \<lparr> returncode = rc, stdout = Some ?out \<rparr>)) \<rparr>"
  have sp: "spawn (?w d rc) (subprocess_args (?w d rc) 45) ''pass''
      = Spawned (Exits_after d \<lparr> returncode = rc, stdout = Some ?out \<rparr>)" for d rc
    by (simp add: always_def)
  have t1: "\<not> exceeds_timeout (Exits_after 1 \<lparr> returncode = 1, stdout = Some ?out \<rparr>) 45"
    and t3: "\<not> exceeds_timeout (Exits_after 3 \<lparr> returncode = 0, stdout = Some ?out \<rparr>) 45"
    by (simp_all add: exceeds_timeout_def)
  have a: "contains ?out QHE_PASS" and b: "contains ?out QHE_FAIL" by code_simp+
  note main = C10_pass_first_returncode_ignored[OF sp[where d = 1 and rc = 1] t1]
  from main a b have 1: "run_in_subprocess (?w 1 1) ''pass'' 45 = (True, None)" by simp
  from main sp[where d = 3 and rc = 0] t3
  have 2: "run_in_subprocess (?w 3 0) ''pass'' 45 = run_in_subprocess (?w 1 1) ''pass'' 45"
    by simp
  from 1 2 show ?thesis by simp
qed

section \<open>Timeout\<close>

text \<open>
  C3. When the child is started and does not exit within the timeout (it runs longer,
  or for ever), \<^verbatim>\<open>run_in_subprocess\<close> returns not passed with the error \<^verbatim>\<open>Timeout(Ns)\<close>,
  \<open>N\<close> the decimal numeral of the timeout, and \<^verbatim>\<open>subprocess.run\<close> has killed the child
  when the function is left.
\<close>

theorem C3_timeout:
  assumes "spawn w (subprocess_args w t) code = Spawned b"
    and "exceeds_timeout b t"
  shows "run_in_subprocess w code t = (False, Some (''Timeout('' @ str_int t @ ''s)''))
       \<and> snd (run_in_subprocess_child w code t) = Killed"
  using assms
  by (cases b)
     (auto simp: run_in_subprocess_def run_in_subprocess_child_def subprocess_run_def communicate_def kill_def
        exceeds_timeout_def)


theorem C3_timeout_witness:
  "run_in_subprocess
     \<lparr> sys_executable = ''python3'', environ = map_of [], tempdir = ''/tmp/qhe'',
       spawn = always (Spawned Never_exits) \<rparr>
     ''while True: pass'' 2 = (False, Some ''Timeout(2s)'')
   \<and> snd (run_in_subprocess_child
     \<lparr> sys_executable = ''python3'', environ = map_of [], tempdir = ''/tmp/qhe'',
       spawn = always (Spawned Never_exits) \<rparr>
     ''while True: pass'' 2) = Killed
   \<and> run_in_subprocess
     \<lparr> sys_executable = ''python3'', environ = map_of [], tempdir = ''/tmp/qhe'',
       spawn = always (Spawned (Exits_after 50 \<lparr> returncode = 0, stdout = Some ''___QHE_PASS___'' \<rparr>)) \<rparr>
     ''time.sleep(50)'' 45 = (False, Some ''Timeout(45s)'')"
proof -
  let ?w = "\<lambda>b. \<lparr> sys_executable = ''python3'', environ = map_of [], tempdir = ''/tmp/qhe'',
       spawn = always (Spawned b) \<rparr>"
  have sp: "spawn (?w b) (subprocess_args (?w b) t) code = Spawned b" for b t code
    by (simp add: always_def)
  have e1: "exceeds_timeout Never_exits 2" by (simp add: exceeds_timeout_def)
  have e2: "exceeds_timeout (Exits_after 50 \<lparr> returncode = 0, stdout = Some ''___QHE_PASS___'' \<rparr>) 45"
    by (simp add: exceeds_timeout_def)
  have s1: "''Timeout('' @ str_int 2 @ ''s)'' = ''Timeout(2s)''" by code_simp
  have s2: "''Timeout('' @ str_int 45 @ ''s)'' = ''Timeout(45s)''" by code_simp
  from C3_timeout[OF sp e1] C3_timeout[OF sp e2] show ?thesis
    by (simp only: s1 s2)
qed


section \<open>The environment of the child\<close>

text \<open>
  C9, as the code has it. The child is the interpreter started with \<^verbatim>\<open>-I\<close> (isolated: no
  user site directory) and \<^verbatim>\<open>-B\<close> (no bytecode files) on the program file, and its
  environment is a copy of the whole environment of the parent, so that every variable
  set for the parent, a credential of the model API included, is set for the child.
\<close>

theorem C9_environment_copied:
  "argv (subprocess_args w t) = [sys_executable w, ''-I'', ''-B'', tempdir w @ ''/eval_task.py'']
   \<and> env (subprocess_args w t) = environ w
   \<and> run_in_subprocess_child w code t =
       (case subprocess_run (spawn w (subprocess_args w t) code) t of
          (TimeoutExpired, st) \<Rightarrow> ((False, Some (''Timeout('' @ str_int t @ ''s)'')), st)
        | (Raises e, st) \<Rightarrow> ((False, Some (''SubprocessError: '' @ e)), st)
        | (Returns p, st) \<Rightarrow> (classify p, st))"
  by (simp add: subprocess_args_def run_in_subprocess_child_def)


text \<open>
  As the specification states it, the child's environment is without the credentials
  of the model API. With \<^verbatim>\<open>OPENAI_API_KEY\<close> set for the parent, the child's
  environment holds it too.
\<close>

theorem C9_counterexample:
  "env (subprocess_args
     \<lparr> sys_executable = ''python3'',
       environ = map_of [(''OPENAI_API_KEY'', ''sk-test''), (''PATH'', ''/usr/bin'')],
       tempdir = ''/tmp/qhe'',
       spawn = always (Spawned Never_exits) \<rparr> 45) ''OPENAI_API_KEY'' = Some ''sk-test''"
  by (simp add: subprocess_args_def)


section \<open>Loading the tasks\<close>









section \<open>The summary step\<close>

text \<open>
  When the labels do not mix (no result has a label, or every result has one), the
  breakdown is computed: its keys are the distinct labels of the results, each once,
  and each key is mapped to the counts of the results with that label.
\<close>

lemma somes_eq:
  "None \<notin> set ks \<Longrightarrow>
     map Some (concat (map (\<lambda>k. case k of None \<Rightarrow> [] | Some l \<Rightarrow> [l]) ks)) = ks"
proof (induction ks)
  case Nil
  then show ?case by simp
next
  case (Cons a ks)
  then obtain y where "a = Some y" by (cases a) auto
  with Cons show ?case by simp
qed

lemma py_sorted_unmixed:
  assumes "distinct ks" and "set ks \<subseteq> {None} \<or> None \<notin> set ks"
  shows "\<exists>ks'. py_sorted ks = Inr ks' \<and> set ks' = set ks \<and> distinct ks'"
proof (cases "length ks \<le> 1")
  case True
  with assms(1) show ?thesis by (simp add: py_sorted_def)
next
  case False
  have nn: "None \<notin> set ks"
  proof
    assume "None \<in> set ks"
    with assms(2) have "set ks \<subseteq> {None}" by auto
    with assms(1) have "length ks \<le> 1"
      by (metis card_mono distinct_card finite.emptyI finite.insertI card.empty card.insert
          empty_iff One_nat_def)
    with False show False by simp
  qed
  let ?xs = "concat (map (\<lambda>k. case k of None \<Rightarrow> [] | Some l \<Rightarrow> [l]) ks)"
  have ks: "map Some ?xs = ks" using nn by (rule somes_eq)
  have "distinct (map Some ?xs)" using assms(1) ks by simp
  then have d: "distinct ?xs" by (simp add: distinct_map)
  have "set (map Some (sort ?xs)) = set (map Some ?xs)" by simp
  then have s: "set (map Some (sort ?xs)) = set ks" using ks by simp
  have "distinct (map Some (sort ?xs))" using d by (simp add: distinct_map)
  with s False nn show ?thesis by (simp add: py_sorted_def)
qed

lemma by_difficulty_of_unmixed:
  assumes "(\<forall>r \<in> set rs. result.difficulty_scale r = None)
         \<or> (\<forall>r \<in> set rs. result.difficulty_scale r \<noteq> None)"
  shows "\<exists>bd. by_difficulty_of rs = Inr bd
      \<and> distinct (map fst bd)
      \<and> set (map fst bd) = result.difficulty_scale ` set rs
      \<and> (\<forall>(k, p, n) \<in> set bd.
            p = length (filter (\<lambda>r. result.passed r \<and> result.difficulty_scale r = k) rs)
          \<and> n = length (filter (\<lambda>r. result.difficulty_scale r = k) rs))"
proof -
  let ?ks = "remdups (map result.difficulty_scale rs)"
  have "set ?ks \<subseteq> {None} \<or> None \<notin> set ?ks" using assms by force
  with py_sorted_unmixed[of ?ks] obtain ks' where
    ks': "py_sorted ?ks = Inr ks'" "set ks' = set ?ks" "distinct ks'" by auto
  let ?bd = "map (\<lambda>k. (k,
      length (filter (\<lambda>r. result.passed r \<and> result.difficulty_scale r = k) rs),
      length (filter (\<lambda>r. result.difficulty_scale r = k) rs))) ks'"
  have fst: "map fst ?bd = ks'" by (simp add: comp_def)
  have "by_difficulty_of rs = Inr ?bd" by (simp add: by_difficulty_of_def ks'(1))
  moreover have "distinct (map fst ?bd)" unfolding fst by (rule ks'(3))
  moreover have "set (map fst ?bd) = result.difficulty_scale ` set rs"
    unfolding fst using ks'(2) by simp
  moreover have "\<forall>(k, p, n) \<in> set ?bd.
            p = length (filter (\<lambda>r. result.passed r \<and> result.difficulty_scale r = k) rs)
          \<and> n = length (filter (\<lambda>r. result.difficulty_scale r = k) rs)"
    by auto
  ultimately show ?thesis by blast
qed

text \<open>
  C4. The specification asks for the summary step to complete on an empty result list, writing
  a summary with total 0, passed 0 and pass@1 0.0. The code computes these three, but
  then reads \<^verbatim>\<open>results[0]\<close> for the header of the table: on the empty list this raises
  IndexError after the table file was created and before the summary is written. A run
  with \<^verbatim>\<open>--max-items 0\<close> ends this way, whatever the dataset holds.
\<close>

theorem C4_empty_run:
  "summarize_and_persist a run_ts [] =
     (Some IndexError, \<lparr> results_csv = Some ([], []), summary_json = None \<rparr>)
   \<and> evaluate (a\<lparr> max_items := Some 0 \<rparr>) (w\<lparr> load_dataset := fixed_dataset rows \<rparr>) gens =
     (Some IndexError, \<lparr> results_csv = Some ([], []), summary_json = None \<rparr>)"
proof -
  have "load_tasks (fixed_dataset rows) d s (Some 0) = Inr []" for d s
    by (cases rows) (simp_all add: load_tasks_def fixed_dataset_def)
  then show ?thesis
    by (simp add: evaluate_def process_tasks_def Let_def summarize_and_persist_def)
qed


text \<open>
  C5. The specification asks for the breakdown by difficulty to succeed when results with a
  label and results without one are mixed. The code sorts the set of labels, and
  comparing \<^verbatim>\<open>None\<close> with a string raises TypeError: for two results, one without a
  label and one with a label, no breakdown is computed and the summary is not written
  (the table is).
\<close>

theorem C5_mixed_labels:
  "by_difficulty_of
     [r\<lparr> result.difficulty_scale := None \<rparr>, r'\<lparr> result.difficulty_scale := Some l \<rparr>]
     = Inl TypeError
   \<and> summarize_and_persist a run_ts
     [r\<lparr> result.difficulty_scale := None \<rparr>, r'\<lparr> result.difficulty_scale := Some l \<rparr>]
     = (Some TypeError,
        \<lparr> results_csv = Some (fieldnames (r\<lparr> result.difficulty_scale := None \<rparr>),
            [r\<lparr> result.difficulty_scale := None \<rparr>, r'\<lparr> result.difficulty_scale := Some l \<rparr>]),
          summary_json = None \<rparr>)"
  by (simp add: by_difficulty_of_def py_sorted_def summarize_and_persist_def)

section \<open>Failures of the model API\<close>











end
